theory Spec2Isabelle
  imports Main
begin

section \<open>Python values\<close>

text \<open>
  A Python \<open>str\<close> is a sequence of Unicode code points, so it is modelled as a list of
  naturals rather than as a list of bytes: \<open>str.strip\<close> decides on code points, and
  the literals of \<open>app.py\<close> contain code points above 255.  \<open>S\<close> turns an ASCII
  literal into such a string.
\<close>

type_synonym pystr = "nat list"

abbreviation S :: "string \<Rightarrow> pystr" where
  "S s \<equiv> map of_char s"

text \<open>
  The values that \<open>r.json()\<close> can hold.  A \<open>dict\<close> is an association list read with
  \<open>map_of\<close> (the first binding of a key is the dict's value for it).  A float is kept
  as mantissa and exponent; the code modelled here never reads a number.
\<close>

datatype pyval =
    PNone
  | PBool bool
  | PInt int
  | PFloat int int
  | PStr pystr
  | PList "pyval list"
  | PDict "(pystr \<times> pyval) list"

type_synonym pydict = "(pystr \<times> pyval) list"

text \<open>
  An exception instance: the name of its class and \<open>str(e)\<close>.  Only subclasses of
  \<open>Exception\<close> are modelled.
\<close>

datatype exn = Exn (exn_class: string) (exn_msg: pystr)

text \<open>\<open>type(v).__name__\<close>, as it appears in the message of an \<open>AttributeError\<close>.\<close>

fun type_name :: "pyval \<Rightarrow> string" where
  "type_name PNone = ''NoneType''"
| "type_name (PBool _) = ''bool''"
| "type_name (PInt _) = ''int''"
| "type_name (PFloat _ _) = ''float''"
| "type_name (PStr _) = ''str''"
| "type_name (PList _) = ''list''"
| "type_name (PDict _) = ''dict''"

text \<open>\<open>d.get(k)\<close>: the value, or \<open>None\<close> for a missing key.\<close>

definition dict_get :: "pydict \<Rightarrow> pystr \<Rightarrow> pyval" where
  "dict_get d k = (case map_of d k of None \<Rightarrow> PNone | Some v \<Rightarrow> v)"

text \<open>
  The exception of \<open>v.a\<close> for a value \<open>v\<close> whose type has no attribute \<open>a\<close>;
  39 is the apostrophe.
\<close>

definition attribute_error :: "pyval \<Rightarrow> string \<Rightarrow> exn" where
  "attribute_error v a =
     Exn ''AttributeError''
       ([39] @ S (type_name v) @ [39] @ S '' object has no attribute '' @ [39] @ S a @ [39])"

text \<open>\<open>sep.join(xs)\<close>\<close>

fun join :: "pystr \<Rightarrow> pystr list \<Rightarrow> pystr" where
  "join sep [] = []"
| "join sep [x] = x"
| "join sep (x # y # ys) = x @ sep @ join sep (y # ys)"

text \<open>\<open>str(n)\<close> for a natural number; 48 is the digit zero.\<close>

fun str_nat :: "nat \<Rightarrow> pystr" where
  "str_nat n = (if n < 10 then [48 + n] else str_nat (n div 10) @ [48 + n mod 10])"

declare str_nat.simps [simp del]

subsection \<open>\<open>str.strip\<close>\<close>

text \<open>
  The code points for which \<open>str.isspace\<close> holds; \<open>strip()\<close> without an argument
  removes exactly these from both ends.
\<close>

definition isspace :: "nat \<Rightarrow> bool" where
  "isspace c \<longleftrightarrow>
     (0x09 \<le> c \<and> c \<le> 0x0D) \<or> (0x1C \<le> c \<and> c \<le> 0x20) \<or> c = 0x85 \<or> c = 0xA0 \<or>
     c = 0x1680 \<or> (0x2000 \<le> c \<and> c \<le> 0x200A) \<or> c = 0x2028 \<or> c = 0x2029 \<or>
     c = 0x202F \<or> c = 0x205F \<or> c = 0x3000"

definition strip :: "pystr \<Rightarrow> pystr" where
  "strip s = rev (dropWhile isspace (rev (dropWhile isspace s)))"

text \<open>A string is blank when nothing is left of it after \<open>strip()\<close>.\<close>

definition blank :: "pystr \<Rightarrow> bool" where
  "blank s \<longleftrightarrow> strip s = []"

section \<open>\<open>process_pdf\<close>\<close>

text \<open>
  The module \<open>mistral_ocr\<close> is imported by \<open>app.py\<close>.  The three functions of it
  that \<open>process_pdf\<close> calls after the HTTP request are parameters of the model; each may
  raise.  \<open>extract_from_page\<close> returns a \<open>str\<close> or \<open>None\<close>.  \<open>build_markdown\<close> is
  called with \<open>images_by_page={}\<close>, \<open>crops_by_page={}\<close> and
  \<open>image_max_width_in=6.5\<close> fixed, so the parameter takes the two arguments that vary.
\<close>

record ocr_lib =
  unwrap_container :: "pyval \<Rightarrow> exn + pyval"
  extract_from_page :: "pydict \<Rightarrow> exn + pystr option"
  build_markdown :: "pystr list \<Rightarrow> bool \<Rightarrow> exn + pystr"

text \<open>The keys scanned at line 83, in the tuple's order.\<close>

definition fallback_keys :: "pystr list" where
  "fallback_keys = [S ''markdown'', S ''full_text'', S ''content'', S ''text'', S ''raw_text'']"

text \<open>
  Lines 82 to 86: \<open>top\<close> starts as the empty string; the first key whose value is a
  \<open>str\<close> with a non-empty \<open>strip()\<close> sets it and ends the loop.
\<close>

fun scan_top :: "pydict \<Rightarrow> pystr list \<Rightarrow> pystr" where
  "scan_top c [] = []"
| "scan_top c (k # ks) =
     (case dict_get c k of
        PStr s \<Rightarrow> if strip s \<noteq> [] then s else scan_top c ks
      | _ \<Rightarrow> scan_top c ks)"

text \<open>The test of line 80: \<open>not isinstance(pages, list) or not pages\<close>.\<close>

fun no_pages :: "pyval \<Rightarrow> bool" where
  "no_pages (PList ps) = (ps = [])"
| "no_pages _ = True"

definition no_content :: exn where
  "no_content =
     Exn ''ValueError'' (S ''No pages and no usable top-level text found in OCR response.'')"

text \<open>The elements of a \<open>list\<close>.\<close>

fun list_items :: "pyval \<Rightarrow> pyval list" where
  "list_items (PList ps) = ps"
| "list_items _ = []"

text \<open>
  Lines 78 to 89: the list of page records that the loop of line 93 runs over.
  \<open>container.get\<close> raises for a container that is not a \<open>dict\<close>.
\<close>

definition normalize_pages :: "pyval \<Rightarrow> exn + pyval list" where
  "normalize_pages container =
     (case container of
        PDict c \<Rightarrow>
          (let pages = dict_get c (S ''pages'') in
           if no_pages pages then
             (let top = scan_top c fallback_keys in
              if strip top = [] then Inl no_content
              else Inr [PDict [(S ''markdown'', PStr top)]])
           else Inr (list_items pages))
      | _ \<Rightarrow> Inl (attribute_error container ''get''))"

text \<open>\<open>p if isinstance(p, dict) else {}\<close>\<close>

fun as_dict :: "pyval \<Rightarrow> pydict" where
  "as_dict (PDict d) = d"
| "as_dict _ = []"

text \<open>\<open>x or ""\<close> for \<open>x\<close> a \<open>str\<close> or \<open>None\<close>.\<close>

fun or_empty :: "pystr option \<Rightarrow> pystr" where
  "or_empty None = []"
| "or_empty (Some s) = s"

text \<open>Line 94: the text of one page record.\<close>

definition page_text :: "(pydict \<Rightarrow> exn + pystr option) \<Rightarrow> pyval \<Rightarrow> exn + pystr" where
  "page_text ex p =
     (case ex (as_dict p) of Inl e \<Rightarrow> Inl e | Inr r \<Rightarrow> Inr (or_empty r))"

text \<open>
  Lines 95 and 96: \<open>title\<close> is \<open>None\<close> or a \<open>str\<close>, and is true when it is a
  non-empty \<open>str\<close>.  The f-string is \<open># \<close>, the title, two line feeds, the text.
\<close>

fun with_title :: "pystr option \<Rightarrow> nat \<Rightarrow> pystr \<Rightarrow> pystr" where
  "with_title (Some t) i txt = (if t \<noteq> [] \<and> i = 1 then S ''# '' @ t @ [10, 10] @ txt else txt)"
| "with_title None i txt = txt"

text \<open>
  Lines 92 to 97: the loop over \<open>enumerate(pages, start=1)\<close>.  The first page whose
  extraction raises ends the loop with that exception.
\<close>

fun extract_pages :: "(pydict \<Rightarrow> exn + pystr option) \<Rightarrow> pystr option \<Rightarrow> nat \<Rightarrow> pyval list
    \<Rightarrow> exn + pystr list" where
  "extract_pages ex title i [] = Inr []"
| "extract_pages ex title i (p # ps) =
     (case page_text ex p of
        Inl e \<Rightarrow> Inl e
      | Inr txt \<Rightarrow>
          (case extract_pages ex title (Suc i) ps of
             Inl e \<Rightarrow> Inl e
           | Inr rest \<Rightarrow> Inr (with_title title i txt # rest)))"

text \<open>The dict returned at line 108.\<close>

record pdf_result =
  response :: pyval
  pages_text :: "pystr list"
  md_text :: pystr
  num_pages :: nat

text \<open>
  \<open>process_pdf\<close> from line 77 on, for the response \<open>resp\<close> that line 74 received.
  Lines 62 to 74 build the request and perform it; an exception there leaves the function
  before any of the code below runs.
\<close>

definition process_pdf :: "ocr_lib \<Rightarrow> pyval \<Rightarrow> pystr option \<Rightarrow> bool \<Rightarrow> exn + pdf_result" where
  "process_pdf lib resp title insert_page_breaks =
     (case unwrap_container lib resp of
        Inl e \<Rightarrow> Inl e
      | Inr container \<Rightarrow>
          (case normalize_pages container of
             Inl e \<Rightarrow> Inl e
           | Inr pages \<Rightarrow>
               (case extract_pages (extract_from_page lib) title 1 pages of
                  Inl e \<Rightarrow> Inl e
                | Inr pt \<Rightarrow>
                    (case build_markdown lib pt insert_page_breaks of
                       Inl e \<Rightarrow> Inl e
                     | Inr md \<Rightarrow>
                         Inr \<lparr>response = resp, pages_text = pt, md_text = md,
                              num_pages = length pages\<rparr>))))"

section \<open>\<open>create_docx\<close> and \<open>main\<close>\<close>

text \<open>
  What the code does to the outside: the files it writes, and the Streamlit widgets it
  shows, in order.  A file holds the \<open>str\<close> that \<open>write_text\<close> was given or the
  bytes that some writer left.
\<close>

type_synonym path = pystr

datatype fdata = TextData pystr | BytesData "nat list"

type_synonym files = "path \<Rightarrow> fdata option"

datatype widget =
    Divider
  | Header pystr
  | Spinner pystr
  | Success pystr
  | ErrorMsg pystr
  | ExceptionBox exn
  | DownloadButton pystr fdata pystr pystr
  | Columns nat
  | Tabs "pystr list"
  | MarkdownW pystr
  | CodeW pystr pystr
  | Expander pystr bool
  | TextW pystr
  | JsonW pyval

record world =
  files :: files
  ui :: "widget list"

definition show_widgets :: "widget list \<Rightarrow> world \<Rightarrow> world" where
  "show_widgets ws w = w\<lparr>ui := ui w @ ws\<rparr>"

text \<open>
  \<open>pathlib\<close> on POSIX; 47 is the slash and 46 the dot.  \<open>Path(d)\<close> keeps the root
  of \<open>d\<close> (two leading slashes stay two, any other number is one) and its
  components, without the empty ones and the dots.
\<close>

fun split_on :: "nat \<Rightarrow> pystr \<Rightarrow> pystr list" where
  "split_on c [] = [[]]"
| "split_on c (x # xs) =
     (if x = c then [] # split_on c xs
      else (case split_on c xs of p # ps \<Rightarrow> (x # p) # ps | [] \<Rightarrow> [[x]]))"

definition path_root :: "path \<Rightarrow> pystr" where
  "path_root d =
     (if take 2 d = [47, 47] \<and> take 3 d \<noteq> [47, 47, 47] then [47, 47]
      else if take 1 d = [47] then [47] else [])"

definition path_parts :: "path \<Rightarrow> pystr list" where
  "path_parts d = filter (\<lambda>p. p \<noteq> [] \<and> p \<noteq> [46]) (split_on 47 d)"

text \<open>
  \<open>str(Path(d) / name)\<close> for a file name \<open>name\<close> (no slash in it, and not a
  dot).  With the empty name it is the prefix of every path below the directory.
\<close>

definition path_join :: "path \<Rightarrow> pystr \<Rightarrow> path" where
  "path_join d name = path_root d @ join [47] (path_parts d @ [name])"

text \<open>
  \<open>Path.write_text(data, encoding="utf-8")\<close>.  Opening the file creates it empty; the
  text is then encoded, and a lone surrogate (a code point from \<open>U+D800\<close> to
  \<open>U+DFFF\<close>, which \<open>json.loads\<close> yields for an escape such as \<open>\ud800\<close>) raises
  \<open>UnicodeEncodeError\<close> for the first run of surrogates.  92 is the backslash.
\<close>

definition is_surrogate :: "nat \<Rightarrow> bool" where
  "is_surrogate c \<longleftrightarrow> 0xD800 \<le> c \<and> c \<le> 0xDFFF"

definition hex_digit :: "nat \<Rightarrow> nat" where
  "hex_digit d = (if d < 10 then 48 + d else 87 + d)"

definition hex4 :: "nat \<Rightarrow> pystr" where
  "hex4 c = map hex_digit [c div 4096 mod 16, c div 256 mod 16, c div 16 mod 16, c mod 16]"

definition unicode_encode_error :: "pystr \<Rightarrow> exn" where
  "unicode_encode_error s =
     (let start = length (takeWhile (\<lambda>c. \<not> is_surrogate c) s);
          run = takeWhile is_surrogate (drop start s)
      in Exn ''UnicodeEncodeError''
           ([39] @ S ''utf-8'' @ [39] @ S '' codec can'' @ [39] @ S ''t encode ''
            @ (if length run = 1
               then S ''character '' @ [39, 92] @ S ''u'' @ hex4 (hd run) @ [39]
                    @ S '' in position '' @ str_nat start
               else S ''characters in position '' @ str_nat start @ S ''-''
                    @ str_nat (start + length run - 1))
            @ S '': surrogates not allowed''))"

definition write_text :: "files \<Rightarrow> path \<Rightarrow> pystr \<Rightarrow> (exn + unit) \<times> files" where
  "write_text fs p s =
     (if list_ex is_surrogate s then (Inl (unicode_encode_error s), fs(p \<mapsto> TextData []))
      else (Inr (), fs(p \<mapsto> TextData s)))"

text \<open>
  \<open>mistral_ocr.build_hybrid_docx\<close> as \<open>create_docx\<close> calls it, with
  \<open>images_by_page={}\<close>, \<open>crops_by_page={}\<close> and \<open>image_max_width_in=6.5\<close> fixed:
  it takes \<open>md_text\<close>, \<open>pages_text\<close>, \<open>out_path\<close> and
  \<open>insert_page_breaks\<close>, may change any file and may raise.
\<close>

type_synonym docx_builder =
  "pystr \<Rightarrow> pystr list \<Rightarrow> path \<Rightarrow> bool \<Rightarrow> files \<Rightarrow> (exn + unit) \<times> files"

text \<open>Lines 115 to 131.\<close>

definition create_docx :: "docx_builder \<Rightarrow> pystr \<Rightarrow> pystr list \<Rightarrow> path \<Rightarrow> bool \<Rightarrow> world
    \<Rightarrow> (exn + path) \<times> world" where
  "create_docx builder md pt output_dir insert_page_breaks w =
     (let docx_path = path_join output_dir (S ''output.docx'');
          w1 = show_widgets [Spinner (S ''Generating DOCX file...'')] w
      in case builder md pt docx_path insert_page_breaks (files w1) of
           (Inl e, fs) \<Rightarrow> (Inl e, w1\<lparr>files := fs\<rparr>)
         | (Inr _, fs) \<Rightarrow> (Inr docx_path, w1\<lparr>files := fs\<rparr>))"

text \<open>\<open>st.session_state\<close>, as lines 24 to 31 initialise it.\<close>

record session_state =
  ss_ocr_result :: pyval
  ss_pages_text :: "pystr list"
  ss_md_text :: "pystr option"
  ss_docx_path :: "path option"

definition initial_session :: session_state where
  "initial_session =
     \<lparr>ss_ocr_result = PNone, ss_pages_text = [], ss_md_text = None, ss_docx_path = None\<rparr>"

text \<open>Line 172: \<open>title if title else None\<close>, for the \<open>str\<close> of the text input.\<close>

definition title_arg :: "pystr \<Rightarrow> pystr option" where
  "title_arg title = (if title \<noteq> [] then Some title else None)"

text \<open>
  Lines 165 to 185, the handler of the button, from the response of the OCR service on:
  the session state is assigned only after \<open>process_pdf\<close> has returned.
\<close>

definition on_process :: "ocr_lib \<Rightarrow> pyval \<Rightarrow> pystr \<Rightarrow> bool \<Rightarrow> session_state \<times> world
    \<Rightarrow> session_state \<times> world" where
  "on_process lib resp title insert_page_breaks sw =
     (case sw of (ss, w) \<Rightarrow>
        (case process_pdf lib resp (title_arg title) insert_page_breaks of
           Inr result \<Rightarrow>
             (ss\<lparr>ss_ocr_result := response result,
                 ss_pages_text := pages_text result,
                 ss_md_text := Some (md_text result)\<rparr>,
              show_widgets
                [Success ([9989] @ S '' Successfully processed '' @ str_nat (num_pages result)
                          @ S '' page(s)!'')] w)
         | Inl e \<Rightarrow>
             (ss, show_widgets
                    [ErrorMsg ([10060] @ S '' Error processing PDF: '' @ exn_msg e),
                     ExceptionBox e] w)))"

text \<open>The expanders of lines 241 to 243, for the pages from number \<open>i\<close> on.\<close>

fun page_expanders :: "nat \<Rightarrow> pystr list \<Rightarrow> widget list" where
  "page_expanders i [] = []"
| "page_expanders i (t # ts) =
     Expander (S ''Page '' @ str_nat i) (i = 1) # TextW t # page_expanders (Suc i) ts"

text \<open>
  Leaving the \<open>with tempfile.TemporaryDirectory()\<close> block, by its end or by an
  exception, removes the directory and every file below it.
\<close>

definition remove_tree :: "path \<Rightarrow> files \<Rightarrow> files" where
  "remove_tree d fs =
     (\<lambda>p. if take (length (path_join d [])) p = path_join d [] then None else fs p)"

text \<open>
  Lines 188 to 259.  \<open>tmpdir\<close> is the name of the fresh temporary directory.  The
  Markdown file is written at line 198, before the \<open>try\<close> of line 201: an exception
  of \<open>write_text\<close> is caught nowhere and leaves \<open>main\<close>, which is the first component
  of the result.  An exception of \<open>create_docx\<close> is caught at line 249.
\<close>

definition show_results :: "docx_builder \<Rightarrow> path \<Rightarrow> bool \<Rightarrow> session_state \<times> world
    \<Rightarrow> exn option \<times> session_state \<times> world" where
  "show_results builder tmpdir insert_page_breaks sw =
     (case sw of (ss, w) \<Rightarrow>
        (case ss_md_text ss of
           None \<Rightarrow> (None, ss, w)
         | Some md \<Rightarrow>
             if md = [] then (None, ss, w)
             else
               (let w1 = show_widgets [Divider, Header ([128202] @ S '' Results'')] w;
                    md_path = path_join tmpdir (S ''output.md'')
                in case write_text (files w1) md_path md of
                     (Inl e, fs) \<Rightarrow> (Some e, ss, w1\<lparr>files := remove_tree tmpdir fs\<rparr>)
                   | (Inr _, fs) \<Rightarrow>
                       (let w2 = w1\<lparr>files := fs\<rparr>;
                            w4 =
                              (case create_docx builder md (ss_pages_text ss) tmpdir
                                      insert_page_breaks w2 of
                                 (Inr docx_path, w3) \<Rightarrow>
                                   show_widgets
                                     ([Columns 2,
                                       DownloadButton ([128229] @ S '' Download Markdown'')
                                         (TextData md) (S ''output.md'') (S ''text/markdown'')]
                                      @ (case files w3 docx_path of
                                           None \<Rightarrow> []
                                         | Some docx_bytes \<Rightarrow>
                                             [DownloadButton ([128229] @ S '' Download DOCX'')
                                                docx_bytes (S ''output.docx'')
                                                (S (''application/vnd.openxmlformats-officedocument''
                                                    @ ''.wordprocessingml.document''))])
                                      @ [Tabs [[128221] @ S '' Markdown Preview'',
                                               [128196] @ S '' Pages'',
                                               [128269] @ S '' Raw Response''],
                                         MarkdownW (S ''### Markdown Output''),
                                         CodeW md (S ''markdown''),
                                         MarkdownW (S ''### Extracted Pages'')]
                                      @ page_expanders 1 (ss_pages_text ss)
                                      @ [MarkdownW (S ''### Raw OCR Response''),
                                         JsonW (ss_ocr_result ss)]) w3
                               | (Inl e, w3) \<Rightarrow>
                                   show_widgets
                                     [ErrorMsg ([10060] @ S '' Error creating DOCX: '' @ exn_msg e),
                                      ExceptionBox e,
                                      DownloadButton
                                        ([128229] @ S '' Download Markdown (DOCX failed)'')
                                        (TextData md) (S ''output.md'') (S ''text/markdown'')] w3)
                        in (None, ss, w4\<lparr>files := remove_tree tmpdir (files w4)\<rparr>)))))"

section \<open>The functions of \<open>mistral_ocr\<close>, from the specification\<close>

subsection \<open>Page text extractor\<close>

text \<open>
  Modelled from the spec: the precedence table of \<open>mistral_ocr.extract_from_page\<close>,
  which is not among the sources.  Section 4.2 prefers \<open>markdown\<close>, then \<open>text\<close>,
  then \<open>content\<close>.
\<close>

definition text_fields :: "pystr list" where
  "text_fields = [S ''markdown'', S ''text'', S ''content'']"

text \<open>
  Modelled from the spec: the scan of a precedence list.  A text field is recognized when
  its value is a \<open>str\<close>, a block list when its value is a \<open>list\<close>; the first
  recognized field of the list is taken.
\<close>

fun first_text :: "pydict \<Rightarrow> pystr list \<Rightarrow> pystr option" where
  "first_text p [] = None"
| "first_text p (k # ks) = (case dict_get p k of PStr s \<Rightarrow> Some s | _ \<Rightarrow> first_text p ks)"

fun first_blocks :: "pydict \<Rightarrow> pystr list \<Rightarrow> pyval list option" where
  "first_blocks p [] = None"
| "first_blocks p (k # ks) = (case dict_get p k of PList bs \<Rightarrow> Some bs | _ \<Rightarrow> first_blocks p ks)"

text \<open>
  Modelled from the spec: \<open>mistral_ocr.extract_from_page\<close>, which is not among the
  sources.  Section 4.2: the best-available text of one page record, with the fixed
  precedence \<open>markdown\<close>, then \<open>text\<close>, then \<open>content\<close>, then any nested
  OCR-block list whose pieces are concatenated in order; a record lacking all recognized
  fields yields the empty string.  The specification names neither the keys of the block
  lists nor the text of a piece: both are parameters.
\<close>

definition extract_from_page_spec :: "pystr list \<Rightarrow> (pyval \<Rightarrow> pystr) \<Rightarrow> pydict \<Rightarrow> pystr" where
  "extract_from_page_spec block_keys piece p =
     (case first_text p text_fields of
        Some s \<Rightarrow> s
      | None \<Rightarrow>
          (case first_blocks p block_keys of
             Some bs \<Rightarrow> concat (map piece bs)
           | None \<Rightarrow> []))"

subsection \<open>Markdown assembler\<close>

text \<open>
  Modelled from the spec: what \<open>mistral_ocr.build_markdown\<close>, which is not among the
  sources, emits.  Section 4.4: for each page in order, its text verbatim, an image
  reference for each image and crop of the page, and, when page breaks are enabled and
  the page is not the last, a page-break marker.  By the example of section 8 a page
  with empty text emits no text piece.  The maps give the assets of a page number, none
  for a page without an entry.
\<close>

datatype 'a md_piece = TextPiece pystr | ImagePiece 'a | PageBreak

fun md_pieces :: "(nat \<Rightarrow> 'a list) \<Rightarrow> (nat \<Rightarrow> 'a list) \<Rightarrow> bool \<Rightarrow> nat \<Rightarrow> pystr list
    \<Rightarrow> 'a md_piece list" where
  "md_pieces images crops brk i [] = []"
| "md_pieces images crops brk i (t # ts) =
     (if t = [] then [] else [TextPiece t])
     @ map ImagePiece (images i) @ map ImagePiece (crops i)
     @ (if brk \<and> ts \<noteq> [] then [PageBreak] else [])
     @ md_pieces images crops brk (Suc i) ts"

text \<open>
  Modelled from the spec: the string of an emitted piece.  The marker and the form of an
  image reference, which the specification leaves to the implementation, are parameters.
\<close>

fun render_piece :: "pystr \<Rightarrow> ('a \<Rightarrow> pystr) \<Rightarrow> 'a md_piece \<Rightarrow> pystr" where
  "render_piece marker image_ref (TextPiece t) = t"
| "render_piece marker image_ref (ImagePiece a) = image_ref a"
| "render_piece marker image_ref PageBreak = marker"

text \<open>
  Modelled from the spec: \<open>mistral_ocr.build_markdown\<close>, which is not among the
  sources.  The Markdown string is the emitted pieces in order; by the example of
  section 8 an empty line (two line feeds) stands between two pieces.
\<close>

definition build_markdown_spec :: "pystr \<Rightarrow> ('a \<Rightarrow> pystr) \<Rightarrow> pystr list \<Rightarrow> (nat \<Rightarrow> 'a list)
    \<Rightarrow> (nat \<Rightarrow> 'a list) \<Rightarrow> bool \<Rightarrow> pystr" where
  "build_markdown_spec marker image_ref pt images crops insert_page_breaks =
     join [10, 10] (map (render_piece marker image_ref) (md_pieces images crops insert_page_breaks 1 pt))"

text \<open>The number of page-break markers among emitted pieces.\<close>

definition count_breaks :: "'a md_piece list \<Rightarrow> nat" where
  "count_breaks ps = length (filter (\<lambda>p. p = PageBreak) ps)"

text \<open>The number of positions at which the string \<open>m\<close> occurs in a string.\<close>

fun occurrences :: "pystr \<Rightarrow> pystr \<Rightarrow> nat" where
  "occurrences m [] = 0"
| "occurrences m (c # cs) = (if take (length m) (c # cs) = m then 1 else 0) + occurrences m cs"

subsection \<open>Hybrid DOCX builder\<close>

text \<open>
  Modelled from the spec: the writes of \<open>mistral_ocr.build_hybrid_docx\<close>, which is not
  among the sources.  Section 4.5: the builder walks the page texts; between pages it
  inserts a page-break control when page breaks are enabled.  Each rendered page is
  appended to the file at the temporary location; the first page whose rendering fails
  ends the construction and leaves the part written so far.  The rendering of one page
  and the page-break control are parameters.
\<close>

definition append_file :: "files \<Rightarrow> path \<Rightarrow> nat list \<Rightarrow> files" where
  "append_file fs p bs =
     fs(p \<mapsto> BytesData ((case fs p of Some (BytesData old) \<Rightarrow> old | _ \<Rightarrow> []) @ bs))"

fun write_pages :: "(pystr \<Rightarrow> exn + nat list) \<Rightarrow> nat list \<Rightarrow> bool \<Rightarrow> path \<Rightarrow> pystr list \<Rightarrow> files
    \<Rightarrow> exn option \<times> files" where
  "write_pages render_page page_break brk tmp [] fs = (None, fs)"
| "write_pages render_page page_break brk tmp (t # ts) fs =
     (case render_page t of
        Inl e \<Rightarrow> (Some e, fs)
      | Inr bs \<Rightarrow>
          write_pages render_page page_break brk tmp ts
            (append_file fs tmp (bs @ (if brk \<and> ts \<noteq> [] then page_break else []))))"

text \<open>
  Modelled from the spec: \<open>mistral_ocr.build_hybrid_docx\<close>, which is not among the
  sources.  Section 4.5: the document is written to a temporary location and moved into
  place on full success.  Sections 3 and 4.5: when hybrid building fails the builder takes
  the degraded path and renders the Markdown string as raw text inside a code block.  An
  error that this path does not recover is the unrecoverable one of section 4.5: the
  builder fails with \<open>DocxBuildError\<close> and leaves no artifact.  Section 5: the temporary
  file is removed whether the build succeeds or fails.  The temporary path and the
  degraded rendering, which can fail as well, are parameters.
\<close>

definition build_hybrid_docx_spec :: "(pystr \<Rightarrow> exn + nat list) \<Rightarrow> (pystr \<Rightarrow> exn + nat list)
    \<Rightarrow> nat list \<Rightarrow> path \<Rightarrow> docx_builder" where
  "build_hybrid_docx_spec render_page render_fallback page_break tmp md pt out_path
       insert_page_breaks fs =
     (case write_pages render_page page_break insert_page_breaks tmp pt
             (fs(tmp \<mapsto> BytesData [])) of
        (None, fs1) \<Rightarrow> (Inr (), (fs1(out_path := fs1 tmp))(tmp := None))
      | (Some e, fs1) \<Rightarrow>
          (case render_fallback md of
             Inl e' \<Rightarrow> (Inl (Exn ''DocxBuildError'' (exn_msg e)), fs1(tmp := None))
           | Inr bs \<Rightarrow>
               (let fs2 = fs1(tmp \<mapsto> BytesData bs)
                in (Inr (), (fs2(out_path := fs2 tmp))(tmp := None)))))"

text \<open>
  The library with the extractor and the assembler of the specification, in text-only
  mode (no images, no crops), on a response that is its own container.
\<close>

definition spec_lib :: "pystr list \<Rightarrow> (pyval \<Rightarrow> pystr) \<Rightarrow> pystr \<Rightarrow> ocr_lib" where
  "spec_lib block_keys piece marker =
     \<lparr>unwrap_container = Inr,
      extract_from_page = (\<lambda>p. Inr (Some (extract_from_page_spec block_keys piece p))),
      build_markdown =
        (\<lambda>pt brk. Inr (build_markdown_spec marker (\<lambda>a::unit. []) pt (\<lambda>_. []) (\<lambda>_. []) brk))\<rparr>"

subsection \<open>An instance for examples\<close>

text \<open>
  A block list under the key \<open>blocks\<close> whose pieces are strings, and the marker that the
  example of section 8 of the specification writes.
\<close>

fun str_piece :: "pyval \<Rightarrow> pystr" where
  "str_piece (PStr s) = s"
| "str_piece _ = []"

definition example_lib :: ocr_lib where
  "example_lib = spec_lib [S ''blocks''] str_piece (S ''<page-break>'')"

text \<open>
  A response with three page records: one with a \<open>markdown\<close> field, one without any text
  field, and one that is not a mapping.
\<close>

definition three_pages :: pyval where
  "three_pages =
     PDict [(S ''pages'',
             PList [PDict [(S ''markdown'', PStr (S ''Intro text''))],
                    PDict [(S ''id'', PInt 2)],
                    PStr (S ''junk'')])]"

definition three_pages_result :: pdf_result where
  "three_pages_result =
     \<lparr>response = three_pages,
      pages_text = [S ''Intro text'', [], []],
      md_text = S ''Intro text'' @ [10, 10] @ S ''<page-break>'' @ [10, 10] @ S ''<page-break>'',
      num_pages = 3\<rparr>"

text \<open>
  A page renderer and a degraded renderer (three backquotes, number 96, open and close
  the code block) that refuse the control characters XML cannot hold, a builder made of
  them, and a session whose second page, and so whose Markdown string, holds such a
  character.
\<close>

definition xml_render :: "pystr \<Rightarrow> exn + nat list" where
  "xml_render t =
     (if list_ex (\<lambda>c. c < 32 \<and> c \<noteq> 9 \<and> c \<noteq> 10 \<and> c \<noteq> 13) t
      then Inl (Exn ''ValueError'' (S ''All strings must be XML compatible''))
      else Inr t)"

definition code_block_render :: "pystr \<Rightarrow> exn + nat list" where
  "code_block_render md = xml_render ([96, 96, 96, 10] @ md @ [10, 96, 96, 96])"

definition example_builder :: docx_builder where
  "example_builder =
     build_hybrid_docx_spec xml_render code_block_render [12] (S ''/tmp/build.tmp'')"

definition no_files :: files where
  "no_files = (\<lambda>p. None)"

definition empty_world :: world where
  "empty_world = \<lparr>files = no_files, ui = []\<rparr>"

definition bad_session :: session_state where
  "bad_session =
     \<lparr>ss_ocr_result = PNone, ss_pages_text = [S ''ok'', [0]],
      ss_md_text = Some (S ''ok'' @ [10, 10, 0]), ss_docx_path = None\<rparr>"

text \<open>Two page texts, the first of which holds the text of the marker.\<close>

definition tagged_pages :: "pystr list" where
  "tagged_pages = [S ''see <page-break> tag'', S ''b'']"

text \<open>The page texts of the example of section 8 of the specification.\<close>

definition report_pages :: "pystr list" where
  "report_pages = [S ''# Report'' @ [10, 10] @ S ''Intro text'', [], S ''Conclusion'']"

section \<open>Auxiliary facts\<close>

lemma example_lib_simps:
  "unwrap_container example_lib = Inr"
  "extract_from_page example_lib = (\<lambda>p. Inr (Some (extract_from_page_spec [S ''blocks''] str_piece p)))"
  "build_markdown example_lib = (\<lambda>pt brk. Inr (build_markdown_spec (S ''<page-break>'') (\<lambda>a::unit. []) pt (\<lambda>_. []) (\<lambda>_. []) brk))"
  by (simp_all add: example_lib_def spec_lib_def)

lemma strip_empty_iff: "strip s = [] \<longleftrightarrow> (\<forall>c\<in>set s. isspace c)"
proof -
  have "strip s = [] \<longleftrightarrow> dropWhile isspace (rev (dropWhile isspace s)) = []"
    by (simp add: strip_def)
  also have "\<dots> \<longleftrightarrow> (\<forall>c\<in>set (dropWhile isspace s). isspace c)"
    by (simp add: dropWhile_eq_Nil_conv)
  also have "\<dots> \<longleftrightarrow> (\<forall>c\<in>set s. isspace c)"
  proof
    assume a: "\<forall>c\<in>set (dropWhile isspace s). isspace c"
    show "\<forall>c\<in>set s. isspace c"
    proof (cases "dropWhile isspace s")
      case Nil
      then show ?thesis by (simp add: dropWhile_eq_Nil_conv)
    next
      case (Cons x xs)
      then have "\<not> isspace x" using hd_dropWhile [of isspace s] by auto
      moreover have "x \<in> set (dropWhile isspace s)" using Cons by simp
      ultimately show ?thesis using a by blast
    qed
  next
    assume "\<forall>c\<in>set s. isspace c"
    then show "\<forall>c\<in>set (dropWhile isspace s). isspace c"
      using set_dropWhileD by fast
  qed
  finally show ?thesis .
qed

lemma blank_iff: "blank s \<longleftrightarrow> list_all isspace s"
  by (simp add: blank_def strip_empty_iff list_all_iff)

lemma scan_top_blank:
  "(\<And>k s. k \<in> set ks \<Longrightarrow> dict_get c k = PStr s \<Longrightarrow> blank s) \<Longrightarrow> scan_top c ks = []"
  by (induction ks) (auto simp: blank_def split: pyval.splits)

lemma scan_top_first:
  assumes "i < length ks" "dict_get c (ks ! i) = PStr v" "\<not> blank v"
    and "\<And>j s. j < i \<Longrightarrow> dict_get c (ks ! j) = PStr s \<Longrightarrow> blank s"
  shows "scan_top c ks = v"
  using assms
proof (induction ks arbitrary: i)
  case Nil
  then show ?case by simp
next
  case (Cons k ks)
  show ?case
  proof (cases i)
    case 0
    with Cons.prems show ?thesis by (simp add: blank_def)
  next
    case (Suc n)
    have skip: "scan_top c (k # ks) = scan_top c ks"
      using Cons.prems(4) [of 0] Suc by (auto simp: blank_def split: pyval.splits)
    have "scan_top c ks = v"
    proof (rule Cons.IH [of n])
      show "n < length ks" using Cons.prems(1) Suc by simp
      show "dict_get c (ks ! n) = PStr v" using Cons.prems(2) Suc by simp
      show "\<not> blank v" by fact
      show "\<And>j s. j < n \<Longrightarrow> dict_get c (ks ! j) = PStr s \<Longrightarrow> blank s"
        using Cons.prems(4) Suc by (metis Suc_less_eq nth_Cons_Suc)
    qed
    with skip show ?thesis by simp
  qed
qed

lemma extract_pages_length:
  "extract_pages ex title i ps = Inr pt \<Longrightarrow> length pt = length ps"
  by (induction ps arbitrary: i pt) (auto split: sum.splits)

lemma extract_pages_nth:
  "extract_pages ex title i ps = Inr pt \<Longrightarrow> j < length ps \<Longrightarrow>
     \<exists>txt. page_text ex (ps ! j) = Inr txt \<and> pt ! j = with_title title (i + j) txt"
proof (induction ps arbitrary: i pt j)
  case Nil
  then show ?case by simp
next
  case (Cons p ps)
  from Cons.prems(1) obtain tx rest where
    p: "page_text ex p = Inr tx" and r: "extract_pages ex title (Suc i) ps = Inr rest"
    and pt: "pt = with_title title i tx # rest"
    by (auto split: sum.splits)
  show ?case
  proof (cases j)
    case 0
    with p pt show ?thesis by simp
  next
    case (Suc n)
    with Cons.prems(2) have "n < length ps" by simp
    from Cons.IH [OF r this] Suc pt show ?thesis by simp
  qed
qed

lemma extract_pages_returns:
  "(\<And>p. p \<in> set ps \<Longrightarrow> \<exists>x. ex (as_dict p) = Inr x) \<Longrightarrow>
     \<exists>pt. extract_pages ex title i ps = Inr pt"
proof (induction ps arbitrary: i)
  case Nil
  then show ?case by simp
next
  case (Cons p ps)
  from Cons.prems [of p] obtain x where "ex (as_dict p) = Inr x" by auto
  then have "page_text ex p = Inr (or_empty x)" by (simp add: page_text_def)
  moreover from Cons.IH [of "Suc i"] Cons.prems obtain rest where
    "extract_pages ex title (Suc i) ps = Inr rest" by auto
  ultimately show ?case by simp
qed

lemma with_title_later: "2 \<le> i \<Longrightarrow> with_title title i txt = txt"
  by (cases title) auto

lemma extract_pages_later:
  "2 \<le> i \<Longrightarrow> extract_pages ex title i ps = extract_pages ex None i ps"
  by (induction ps arbitrary: i) (auto simp: with_title_later split: sum.splits)

lemma extract_pages_empty_title:
  "extract_pages ex (Some []) i ps = extract_pages ex None i ps"
  by (induction ps arbitrary: i) (auto split: sum.splits)

lemma extract_pages_title:
  assumes "t \<noteq> []" and "extract_pages ex None 1 ps = Inr (x # xs)"
  shows "extract_pages ex (Some t) 1 ps = Inr ((S ''# '' @ t @ [10, 10] @ x) # xs)"
proof (cases ps)
  case Nil
  with assms(2) show ?thesis by simp
next
  case (Cons p ps')
  have "extract_pages ex (Some t) (Suc 1) ps' = extract_pages ex None (Suc 1) ps'"
    by (rule extract_pages_later) simp
  with assms Cons show ?thesis
    by (auto split: sum.splits)
qed

lemma normalize_pages_list:
  "dict_get c (S ''pages'') = PList ps \<Longrightarrow> ps \<noteq> [] \<Longrightarrow> normalize_pages (PDict c) = Inr ps"
  by (simp add: normalize_pages_def)

lemma normalize_pages_nonempty: "normalize_pages v = Inr ps \<Longrightarrow> ps \<noteq> []"
  by (cases v) (auto simp: normalize_pages_def Let_def split: if_splits pyval.splits elim: no_pages.elims)

lemma three_pages_eval:
  "process_pdf example_lib three_pages None True = Inr three_pages_result"
  by (simp add: process_pdf_def example_lib_simps three_pages_def three_pages_result_def
      normalize_pages_def dict_get_def page_text_def extract_from_page_spec_def text_fields_def
      build_markdown_spec_def)




lemma first_text_None:
  "first_text p ks = None \<longleftrightarrow> (\<forall>k\<in>set ks. \<forall>v. dict_get p k \<noteq> PStr v)"
  by (induction ks) (auto split: pyval.splits)

lemma first_text_first:
  assumes "i < length ks" "dict_get p (ks ! i) = PStr v"
    and "\<And>j s. j < i \<Longrightarrow> dict_get p (ks ! j) \<noteq> PStr s"
  shows "first_text p ks = Some v"
  using assms
proof (induction ks arbitrary: i)
  case Nil
  then show ?case by simp
next
  case (Cons k ks)
  show ?case
  proof (cases i)
    case 0
    with Cons.prems show ?thesis by simp
  next
    case (Suc n)
    have skip: "first_text p (k # ks) = first_text p ks"
      using Cons.prems(3) [of 0] Suc by (auto split: pyval.splits)
    have "first_text p ks = Some v"
    proof (rule Cons.IH [of n])
      show "n < length ks" using Cons.prems(1) Suc by simp
      show "dict_get p (ks ! n) = PStr v" using Cons.prems(2) Suc by simp
      show "\<And>j s. j < n \<Longrightarrow> dict_get p (ks ! j) \<noteq> PStr s"
        using Cons.prems(3) Suc by (metis Suc_less_eq nth_Cons_Suc)
    qed
    with skip show ?thesis by simp
  qed
qed

lemma count_breaks_simps [simp]:
  "count_breaks [] = 0"
  "count_breaks (PageBreak # ps) = Suc (count_breaks ps)"
  "count_breaks (TextPiece t # ps) = count_breaks ps"
  "count_breaks (ImagePiece a # ps) = count_breaks ps"
  "count_breaks (ps @ qs) = count_breaks ps + count_breaks qs"
  "count_breaks (map ImagePiece as) = 0"
  by (simp_all add: count_breaks_def)

lemma md_pieces_breaks:
  "count_breaks (md_pieces images crops brk i pt) = (if brk then length pt - 1 else 0)"
  by (induction pt arbitrary: i) (auto simp: Suc_diff_le Suc_leI)

lemma md_pieces_text:
  "TextPiece t \<in> set (md_pieces images crops brk i pt) \<Longrightarrow> t \<in> set pt"
  by (induction pt arbitrary: i) (auto split: if_splits)

lemma join_Cons: "join sep (x # xs) = (if xs = [] then x else x @ sep @ join sep xs)"
  by (cases xs) auto

lemma report_markdown:
  "build_markdown_spec (S ''<page-break>'') (\<lambda>a::unit. []) report_pages (\<lambda>_. []) (\<lambda>_. []) True
     = S ''# Report'' @ [10, 10] @ S ''Intro text'' @ [10, 10] @ S ''<page-break>'' @ [10, 10]
       @ S ''<page-break>'' @ [10, 10] @ S ''Conclusion''"
  by (simp add: build_markdown_spec_def report_pages_def)

lemma occurrences_short: "length s < length m \<Longrightarrow> occurrences m s = 0"
  by (induction s) auto

lemma occurrences_self: "m \<noteq> [] \<Longrightarrow> occurrences m m = 1"
  by (cases m) (auto simp: occurrences_short)

lemma take_eq_hd: "take n (c # b) = m \<Longrightarrow> m \<noteq> [] \<Longrightarrow> c \<in> set m"
  by (cases n) auto

lemma occurrences_split:
  assumes "c \<notin> set m" and "m \<noteq> []"
  shows "occurrences m (a @ c # b) = occurrences m a + occurrences m b"
proof (induction a)
  case Nil
  have "take (length m) (c # b) \<noteq> m"
    using take_eq_hd [of "length m" c b m] assms by blast
  then show ?case by simp
next
  case (Cons x a)
  have "take (length m) (x # a @ c # b) = m \<longleftrightarrow> take (length m) (x # a) = m"
  proof (cases "length m \<le> length (x # a)")
    case True
    then have "take (length m) ((x # a) @ c # b) = take (length m) (x # a)"
      by (simp del: append_Cons)
    then show ?thesis by simp
  next
    case False
    then have l: "length (x # a) < length m" by simp
    then obtain k where k: "length m = Suc (length a) + Suc k"
      using less_imp_Suc_add [of "length (x # a)" "length m"] by auto
    have "take (length m) (x # a @ c # b) = x # a @ c # take k b"
      by (simp add: k)
    then have "c \<in> set (take (length m) (x # a @ c # b))"
      by simp
    then have 1: "take (length m) (x # a @ c # b) \<noteq> m"
      using assms(1) by auto
    have "length (take (length m) (x # a)) < length m"
      using l by simp
    then have 2: "take (length m) (x # a) \<noteq> m" by auto
    from 1 2 show ?thesis by simp
  qed
  with Cons show ?case by simp
qed

lemma occurrences_join:
  assumes "10 \<notin> set m" and "m \<noteq> []"
  shows "occurrences m (join [10, 10] rs) = sum_list (map (occurrences m) rs)"
proof (induction rs)
  case Nil
  then show ?case by simp
next
  case (Cons r rs)
  show ?case
  proof (cases "rs = []")
    case True
    then show ?thesis by simp
  next
    case False
    have "occurrences m (r @ 10 # ([] @ 10 # join [10, 10] rs))
            = occurrences m r + occurrences m ([] @ 10 # join [10, 10] rs)"
      by (rule occurrences_split [OF assms])
    also have "occurrences m ([] @ 10 # join [10, 10] rs)
            = occurrences m [] + occurrences m (join [10, 10] rs)"
      by (rule occurrences_split [OF assms])
    finally show ?thesis using False Cons by (simp add: join_Cons)
  qed
qed

lemma occurrences_pieces:
  assumes "marker \<noteq> []"
    and "\<And>t. TextPiece t \<in> set ps \<Longrightarrow> occurrences marker t = 0"
    and "\<And>a. occurrences marker (image_ref a) = 0"
  shows "sum_list (map (occurrences marker) (map (render_piece marker image_ref) ps))
           = count_breaks ps"
  using assms(2)
proof (induction ps)
  case Nil
  then show ?case by simp
next
  case (Cons p ps)
  have "occurrences marker (render_piece marker image_ref p) = count_breaks [p]"
  proof (cases p)
    case (TextPiece t)
    with Cons.prems [of t] show ?thesis by simp
  next
    case (ImagePiece a)
    with assms(3) show ?thesis by simp
  next
    case PageBreak
    with assms(1) show ?thesis by (simp add: occurrences_self)
  qed
  moreover have "count_breaks (p # ps) = count_breaks [p] + count_breaks ps"
    using count_breaks_simps(5) [of "[p]" ps] by simp
  ultimately show ?case using Cons by simp
qed



text \<open>
  A Markdown string with a lone surrogate: \<open>write_text\<close> raises before the \<open>try\<close>, the
  exception leaves \<open>main\<close>, the builder is not called and no download is shown.
\<close>

lemma write_text_surrogate:
  "show_results example_builder (S ''/tmp/d'') True
     (bad_session\<lparr>ss_md_text := Some [0xD800, 120]\<rparr>, empty_world)
   = (Some (unicode_encode_error [0xD800, 120]), bad_session\<lparr>ss_md_text := Some [0xD800, 120]\<rparr>,
      \<lparr>files = remove_tree (S ''/tmp/d'') (no_files(S ''/tmp/d/output.md'' \<mapsto> TextData [])),
       ui = [Divider, Header ([128202] @ S '' Results'')]\<rparr>)"
  by (simp add: show_results_def write_text_def is_surrogate_def show_widgets_def empty_world_def
      bad_session_def path_join_def path_root_def path_parts_def Let_def)

section \<open>The response normalizer\<close>

text \<open>
  Claim C1, as amended.  When the unwrapped container has no usable \<open>pages\<close> (the key
  is missing, its value is not a list, or the list is empty) and every fallback field
  (\<open>markdown\<close>, \<open>full_text\<close>, \<open>content\<close>, \<open>text\<close>, \<open>raw_text\<close>) is absent, not a
  string or blank, \<open>process_pdf\<close> raises \<open>ValueError\<close> with the message of line 88,
  whatever the title and the page-break toggle are, and returns no result.  The handler
  of the button reports the error and leaves the session state as it was: no page text
  and no Markdown are stored.
\<close>

theorem no_content_raises:
  assumes "unwrap_container lib resp = Inr (PDict c)"
    and "no_pages (dict_get c (S ''pages''))"
    and "\<forall>k\<in>set fallback_keys. \<forall>s. dict_get c k = PStr s \<longrightarrow> blank s"
  shows "process_pdf lib resp title insert_page_breaks =
           Inl (Exn ''ValueError''
                  (S ''No pages and no usable top-level text found in OCR response.''))
         \<and> on_process lib resp t insert_page_breaks (ss, w) =
           (ss, show_widgets
                  [ErrorMsg ([10060] @ S '' Error processing PDF: ''
                             @ S ''No pages and no usable top-level text found in OCR response.''),
                   ExceptionBox no_content] w)"
proof -
  have "scan_top c fallback_keys = []"
    using assms(3) by (intro scan_top_blank) blast
  then have n: "normalize_pages (PDict c) = Inl no_content"
    using assms(2) by (simp add: normalize_pages_def strip_def)
  have p: "\<And>title. process_pdf lib resp title insert_page_breaks = Inl no_content"
    using assms(1) n by (simp add: process_pdf_def)
  show ?thesis
    by (simp add: p on_process_def) (simp add: no_content_def)
qed

theorem no_content_raises_witness:
  "process_pdf example_lib (PDict [(S ''text'', PStr (S ''  '')), (S ''pages'', PList [])]) None True =
     Inl (Exn ''ValueError'' (S ''No pages and no usable top-level text found in OCR response.''))"
proof -
  let ?c = "[(S ''text'', PStr (S ''  '')), (S ''pages'', PList [])]"
  have 1: "unwrap_container example_lib (PDict ?c) = Inr (PDict ?c)"
    by (simp add: example_lib_simps)
  have 2: "no_pages (dict_get ?c (S ''pages''))"
    by (simp add: dict_get_def)
  have 3: "\<forall>k\<in>set fallback_keys. \<forall>s. dict_get ?c k = PStr s \<longrightarrow> blank s"
    by (simp add: fallback_keys_def dict_get_def blank_iff isspace_def)
  show ?thesis
    using no_content_raises [OF 1 2 3, of None True] by simp
qed

text \<open>
  Claim C1 as stated names the exception \<open>NoContentError\<close>.  On a container whose
  only text field is blank the exception raised is a \<open>ValueError\<close>.
\<close>

theorem no_content_error_class_counterexample:
  "process_pdf example_lib (PDict [(S ''text'', PStr (S ''  '')), (S ''pages'', PList [])]) None True
     = Inl no_content
   \<and> exn_class no_content = ''ValueError''
   \<and> exn_class no_content \<noteq> ''NoContentError''"
  by (simp add: process_pdf_def example_lib_simps normalize_pages_def dict_get_def
      fallback_keys_def strip_def isspace_def no_content_def)

text \<open>
  Claim C2.  When the container has no usable \<open>pages\<close> and the field at position
  \<open>i\<close> of the order \<open>markdown\<close>, \<open>full_text\<close>, \<open>content\<close>, \<open>text\<close>,
  \<open>raw_text\<close> is a non-blank string \<open>v\<close>, every field before it being absent, not
  a string or blank, the normalizer yields exactly one page record, \<open>{"markdown": v}\<close>.
  For \<open>i = 0\<close> this is the case of a non-blank \<open>markdown\<close> field.
\<close>

theorem fallback_first_nonblank:
  assumes "no_pages (dict_get c (S ''pages''))"
    and "i < length fallback_keys"
    and "dict_get c (fallback_keys ! i) = PStr v"
    and "\<not> blank v"
    and "\<forall>j<i. \<forall>s. dict_get c (fallback_keys ! j) = PStr s \<longrightarrow> blank s"
  shows "normalize_pages (PDict c) = Inr [PDict [(S ''markdown'', PStr v)]]"
proof -
  have "scan_top c fallback_keys = v"
    using assms(2,3,4,5) by (intro scan_top_first [of i]) blast+
  then show ?thesis
    using assms(1,4) by (simp add: normalize_pages_def blank_def)
qed

theorem fallback_first_nonblank_witness:
  "normalize_pages (PDict [(S ''text'', PStr (S ''body'')), (S ''markdown'', PStr [32]), (S ''raw_text'', PStr (S ''later''))])
     = Inr [PDict [(S ''markdown'', PStr (S ''body''))]]"
proof -
  let ?c = "[(S ''text'', PStr (S ''body'')), (S ''markdown'', PStr [32]), (S ''raw_text'', PStr (S ''later''))]"
  have 1: "no_pages (dict_get ?c (S ''pages''))"
    by (simp add: dict_get_def)
  have 2: "3 < length fallback_keys"
    by (simp add: fallback_keys_def)
  have 3: "dict_get ?c (fallback_keys ! 3) = PStr (S ''body'')"
    by (simp add: fallback_keys_def dict_get_def)
  have 4: "\<not> blank (S ''body'')"
    by (simp add: blank_iff isspace_def)
  have 5: "\<forall>j<3. \<forall>s. dict_get ?c (fallback_keys ! j) = PStr s \<longrightarrow> blank s"
    by (simp add: fallback_keys_def dict_get_def blank_iff isspace_def less_Suc_eq numeral_3_eq_3)
  show ?thesis
    using fallback_first_nonblank [OF 1 2 3 4 5] by simp
qed

section \<open>The page text sequence\<close>

text \<open>
  Claim C3.  For a container whose \<open>pages\<close> is a non-empty list \<open>ps\<close>, every result of
  \<open>process_pdf\<close> has exactly \<open>length ps\<close> page texts and reports that number of pages;
  entry \<open>j\<close> is the text extracted from record \<open>j\<close> (with the title heading on the first
  one), also when that text is empty.  A result exists whenever the extractor raises on
  no page record and \<open>build_markdown\<close> does not raise.
\<close>

theorem page_text_count:
  assumes "unwrap_container lib resp = Inr (PDict c)"
    and "dict_get c (S ''pages'') = PList ps"
    and "ps \<noteq> []"
  shows "(\<forall>r. process_pdf lib resp title insert_page_breaks = Inr r \<longrightarrow>
            length (pages_text r) = length ps \<and> num_pages r = length ps \<and>
            (\<forall>j<length ps. \<exists>txt. page_text (extract_from_page lib) (ps ! j) = Inr txt \<and>
               pages_text r ! j = with_title title (Suc j) txt))
         \<and> ((\<forall>p\<in>set ps. \<exists>x. extract_from_page lib (as_dict p) = Inr x) \<and>
             (\<forall>pt. \<exists>md. build_markdown lib pt insert_page_breaks = Inr md) \<longrightarrow>
             (\<exists>r. process_pdf lib resp title insert_page_breaks = Inr r))"
proof (intro conjI allI impI)
  fix r
  assume "process_pdf lib resp title insert_page_breaks = Inr r"
  then obtain pt md where
    pt: "extract_pages (extract_from_page lib) title 1 ps = Inr pt"
    and r: "r = \<lparr>response = resp, pages_text = pt, md_text = md, num_pages = length ps\<rparr>"
    using assms by (auto simp: process_pdf_def normalize_pages_list split: sum.splits)
  show "length (pages_text r) = length ps"
    using extract_pages_length [OF pt] r by simp
  show "num_pages r = length ps"
    using r by simp
  fix j
  assume "j < length ps"
  from extract_pages_nth [OF pt this] r
  show "\<exists>txt. page_text (extract_from_page lib) (ps ! j) = Inr txt \<and>
          pages_text r ! j = with_title title (Suc j) txt"
    by simp
next
  assume a: "(\<forall>p\<in>set ps. \<exists>x. extract_from_page lib (as_dict p) = Inr x) \<and>
             (\<forall>pt. \<exists>md. build_markdown lib pt insert_page_breaks = Inr md)"
  then obtain pt where pt: "extract_pages (extract_from_page lib) title 1 ps = Inr pt"
    using extract_pages_returns [of ps "extract_from_page lib" title 1] by blast
  from a obtain md where "build_markdown lib pt insert_page_breaks = Inr md" by blast
  with pt assms show "\<exists>r. process_pdf lib resp title insert_page_breaks = Inr r"
    by (simp add: process_pdf_def normalize_pages_list)
qed

theorem page_text_count_witness:
  "\<exists>r. process_pdf example_lib three_pages (Some (S ''Report'')) True = Inr r \<and>
     length (pages_text r) = 3 \<and> num_pages r = 3 \<and> pages_text r ! 1 = []"
proof -
  let ?ps = "[PDict [(S ''markdown'', PStr (S ''Intro text''))], PDict [(S ''id'', PInt 2)],
              PStr (S ''junk'')]"
  let ?c = "[(S ''pages'', PList ?ps)]"
  have 1: "unwrap_container example_lib three_pages = Inr (PDict ?c)"
    by (simp add: example_lib_simps three_pages_def)
  have 2: "dict_get ?c (S ''pages'') = PList ?ps"
    by (simp add: dict_get_def)
  have 3: "?ps \<noteq> []"
    by simp
  note t = page_text_count [OF 1 2 3, of "Some (S ''Report'')" True]
  have "\<exists>r. process_pdf example_lib three_pages (Some (S ''Report'')) True = Inr r"
    using t [THEN conjunct2] by (simp add: example_lib_simps)
  then obtain r where r: "process_pdf example_lib three_pages (Some (S ''Report'')) True = Inr r"
    by blast
  from t [THEN conjunct1] r have
    l: "length (pages_text r) = 3" and n: "num_pages r = 3"
    and j: "\<forall>j<3. \<exists>tx. page_text (extract_from_page example_lib) (?ps ! j) = Inr tx \<and>
               pages_text r ! j = with_title (Some (S ''Report'')) (Suc j) tx"
    by simp_all
  have "(1::nat) < 3" by simp
  from j [rule_format, OF this] obtain tx where
    "page_text (extract_from_page example_lib) (?ps ! 1) = Inr tx"
    and "pages_text r ! 1 = with_title (Some (S ''Report'')) (Suc 1) tx"
    by blast
  then have "pages_text r ! 1 = []"
    by (simp add: page_text_def example_lib_simps extract_from_page_spec_def text_fields_def
        dict_get_def)
  with r l n show ?thesis by blast
qed

text \<open>
  Claim C4.  Let \<open>process_pdf\<close> without a title return page texts \<open>x # xs\<close> (the
  sequence is never empty).  With a title \<open>t\<close> that is not the empty string, every
  result has the page texts \<open>("# " + t + "\n\n" + x) # xs\<close>: the first page carries the
  level-1 heading with exactly \<open>t\<close>, a blank line and its own text, and no other page
  changes.  Such a result exists whenever \<open>build_markdown\<close> accepts that sequence.
\<close>

theorem title_heading_first_page:
  assumes "t \<noteq> []"
    and "process_pdf lib resp None insert_page_breaks = Inr r0"
  shows "\<exists>x xs. pages_text r0 = x # xs \<and>
           (\<forall>md. build_markdown lib ((S ''# '' @ t @ [10, 10] @ x) # xs) insert_page_breaks = Inr md \<longrightarrow>
              process_pdf lib resp (Some t) insert_page_breaks =
                Inr (r0\<lparr>pages_text := (S ''# '' @ t @ [10, 10] @ x) # xs, md_text := md\<rparr>)) \<and>
           (\<forall>r. process_pdf lib resp (Some t) insert_page_breaks = Inr r \<longrightarrow>
              pages_text r = (S ''# '' @ t @ [10, 10] @ x) # xs)"
proof -
  from assms(2) obtain container pages pt md0 where
    u: "unwrap_container lib resp = Inr container"
    and n: "normalize_pages container = Inr pages"
    and e: "extract_pages (extract_from_page lib) None 1 pages = Inr pt"
    and r0: "r0 = \<lparr>response = resp, pages_text = pt, md_text = md0, num_pages = length pages\<rparr>"
    by (auto simp: process_pdf_def split: sum.splits)
  have "pt \<noteq> []"
    using normalize_pages_nonempty [OF n] extract_pages_length [OF e] by auto
  then obtain x xs where pt: "pt = x # xs" by (cases pt) auto
  have e': "extract_pages (extract_from_page lib) (Some t) 1 pages
             = Inr ((S ''# '' @ t @ [10, 10] @ x) # xs)"
    using extract_pages_title [OF assms(1)] e pt by simp
  show ?thesis
    using u n e' r0 pt by (auto simp: process_pdf_def split: sum.splits)
qed

theorem title_heading_first_page_witness:
  "process_pdf example_lib three_pages (Some (S ''Report'')) True =
     Inr \<lparr>response = three_pages,
          pages_text = [S ''# Report'' @ [10, 10] @ S ''Intro text'', [], []],
          md_text = S ''# Report'' @ [10, 10] @ S ''Intro text'' @ [10, 10] @ S ''<page-break>''
                    @ [10, 10] @ S ''<page-break>'',
          num_pages = 3\<rparr>"
proof -
  have 1: "S ''Report'' \<noteq> []" by simp
  from title_heading_first_page [OF 1 three_pages_eval]
  obtain x xs where p: "pages_text three_pages_result = x # xs"
    and b: "\<forall>md. build_markdown example_lib ((S ''# '' @ S ''Report'' @ [10, 10] @ x) # xs) True = Inr md \<longrightarrow>
              process_pdf example_lib three_pages (Some (S ''Report'')) True =
                Inr (three_pages_result\<lparr>pages_text := (S ''# '' @ S ''Report'' @ [10, 10] @ x) # xs, md_text := md\<rparr>)"
    by blast
  from p have x: "x = S ''Intro text''" and xs: "xs = [[], []]"
    by (simp_all add: three_pages_result_def)
  show ?thesis
    using b unfolding x xs
    by (simp add: example_lib_simps build_markdown_spec_def three_pages_result_def)
qed

text \<open>
  Claim C10.  A title that is the empty string is no title: \<open>process_pdf\<close> called with
  \<open>""\<close> does what it does with \<open>None\<close>, so no heading is put on page 1 and the page
  texts are the same; and \<open>main\<close> passes \<open>None\<close> for an empty text input.
\<close>

theorem empty_title_is_no_title:
  "process_pdf lib resp (Some []) insert_page_breaks = process_pdf lib resp None insert_page_breaks
   \<and> process_pdf lib resp (title_arg []) insert_page_breaks = process_pdf lib resp None insert_page_breaks"
  by (simp add: process_pdf_def extract_pages_empty_title title_arg_def cong: sum.case_cong)

section \<open>Failure of the DOCX builder\<close>




text \<open>
  Claim C9.  \<open>main\<close> never assigns the session state while it shows the results, so the
  Markdown string stays what it was.  Let the session hold a non-empty Markdown string
  \<open>md\<close> that \<open>write_text\<close> can encode, so that line 198 is passed and the builder is
  called.  When the DOCX builder raises \<open>e\<close>, whatever builder it is and whatever it
  did to the files, \<open>main\<close> catches \<open>e\<close>, no exception leaves it, and after the error
  message it offers the download of exactly \<open>md\<close> as \<open>output.md\<close>.
\<close>

theorem docx_failure_keeps_markdown:
  "fst (snd (show_results builder tmpdir insert_page_breaks (ss, w))) = ss \<and>
   (ss_md_text ss = Some md \<and> md \<noteq> [] \<and> \<not> list_ex is_surrogate md \<and>
    fst (builder md (ss_pages_text ss) (path_join tmpdir (S ''output.docx'')) insert_page_breaks
          ((files w)(path_join tmpdir (S ''output.md'') \<mapsto> TextData md))) = Inl e \<longrightarrow>
      fst (show_results builder tmpdir insert_page_breaks (ss, w)) = None \<and>
      ss_md_text (fst (snd (show_results builder tmpdir insert_page_breaks (ss, w)))) = Some md \<and>
      ui (snd (snd (show_results builder tmpdir insert_page_breaks (ss, w)))) =
        ui w @ [Divider, Header ([128202] @ S '' Results''),
                Spinner (S ''Generating DOCX file...''),
                ErrorMsg ([10060] @ S '' Error creating DOCX: '' @ exn_msg e),
                ExceptionBox e,
                DownloadButton ([128229] @ S '' Download Markdown (DOCX failed)'')
                  (TextData md) (S ''output.md'') (S ''text/markdown'')])"
proof (intro conjI impI)
  show "fst (snd (show_results builder tmpdir insert_page_breaks (ss, w))) = ss"
    by (auto simp: show_results_def Let_def split: option.splits prod.splits sum.splits)
next
  assume a: "ss_md_text ss = Some md \<and> md \<noteq> [] \<and> \<not> list_ex is_surrogate md \<and>
    fst (builder md (ss_pages_text ss) (path_join tmpdir (S ''output.docx'')) insert_page_breaks
          ((files w)(path_join tmpdir (S ''output.md'') \<mapsto> TextData md))) = Inl e"
  let ?fs = "(files w)(path_join tmpdir (S ''output.md'') \<mapsto> TextData md)"
  obtain fs' where b: "builder md (ss_pages_text ss) (path_join tmpdir (S ''output.docx''))
      insert_page_breaks ?fs = (Inl e, fs')"
    using a by (cases "builder md (ss_pages_text ss) (path_join tmpdir (S ''output.docx''))
      insert_page_breaks ?fs") auto
  have r: "show_results builder tmpdir insert_page_breaks (ss, w) =
      (None, ss,
       \<lparr>files = remove_tree tmpdir fs',
        ui = ui w @ [Divider, Header ([128202] @ S '' Results''),
                Spinner (S ''Generating DOCX file...''),
                ErrorMsg ([10060] @ S '' Error creating DOCX: '' @ exn_msg e),
                ExceptionBox e,
                DownloadButton ([128229] @ S '' Download Markdown (DOCX failed)'')
                  (TextData md) (S ''output.md'') (S ''text/markdown'')]\<rparr>)"
    using a b
    by (simp add: show_results_def create_docx_def show_widgets_def write_text_def Let_def)
  show "fst (show_results builder tmpdir insert_page_breaks (ss, w)) = None"
    by (simp add: r)
  show "ss_md_text (fst (snd (show_results builder tmpdir insert_page_breaks (ss, w)))) = Some md"
    using a by (simp add: r)
  show "ui (snd (snd (show_results builder tmpdir insert_page_breaks (ss, w)))) =
        ui w @ [Divider, Header ([128202] @ S '' Results''),
                Spinner (S ''Generating DOCX file...''),
                ErrorMsg ([10060] @ S '' Error creating DOCX: '' @ exn_msg e),
                ExceptionBox e,
                DownloadButton ([128229] @ S '' Download Markdown (DOCX failed)'')
                  (TextData md) (S ''output.md'') (S ''text/markdown'')]"
    by (simp add: r)
qed

theorem docx_failure_keeps_markdown_witness:
  "fst (show_results example_builder (S ''/tmp/d'') True (bad_session, empty_world)) = None \<and>
   fst (snd (show_results example_builder (S ''/tmp/d'') True (bad_session, empty_world)))
     = bad_session \<and>
   ui (snd (snd (show_results example_builder (S ''/tmp/d'') True (bad_session, empty_world)))) =
     [Divider, Header ([128202] @ S '' Results''),
      Spinner (S ''Generating DOCX file...''),
      ErrorMsg ([10060] @ S '' Error creating DOCX: All strings must be XML compatible''),
      ExceptionBox (Exn ''DocxBuildError'' (S ''All strings must be XML compatible'')),
      DownloadButton ([128229] @ S '' Download Markdown (DOCX failed)'')
        (TextData (S ''ok'' @ [10, 10, 0])) (S ''output.md'') (S ''text/markdown'')]"
proof -
  have h: "ss_md_text bad_session = Some (S ''ok'' @ [10, 10, 0]) \<and> S ''ok'' @ [10, 10, 0] \<noteq> [] \<and>
      \<not> list_ex is_surrogate (S ''ok'' @ [10, 10, 0]) \<and>
      fst (example_builder (S ''ok'' @ [10, 10, 0]) (ss_pages_text bad_session)
            (path_join (S ''/tmp/d'') (S ''output.docx'')) True
            ((files empty_world)(path_join (S ''/tmp/d'') (S ''output.md'')
               \<mapsto> TextData (S ''ok'' @ [10, 10, 0]))))
        = Inl (Exn ''DocxBuildError'' (S ''All strings must be XML compatible''))"
    by (simp add: example_builder_def build_hybrid_docx_spec_def bad_session_def xml_render_def
        code_block_render_def is_surrogate_def)
  note t = docx_failure_keeps_markdown [where builder = example_builder and ss = bad_session
      and md = "S ''ok'' @ [10, 10, 0]" and tmpdir = "S ''/tmp/d''" and insert_page_breaks = True
      and w = empty_world
      and e = "Exn ''DocxBuildError'' (S ''All strings must be XML compatible'')"]
  from t [THEN conjunct1] t [THEN conjunct2, rule_format, OF h]
  show ?thesis
    by (simp add: empty_world_def)
qed

section \<open>The page text extractor\<close>

text \<open>
  Claim C6.  For a page record with both a \<open>markdown\<close> and a \<open>text\<close> field the
  extractor of the specification returns the value of \<open>markdown\<close>.  In general it
  returns the first field of the order \<open>markdown\<close>, \<open>text\<close>, \<open>content\<close> that holds a
  string, and only a record without any of them is read from its block list, whose
  pieces are concatenated in order.
\<close>

theorem markdown_before_text:
  "(dict_get p (S ''markdown'') = PStr m \<and> dict_get p (S ''text'') = PStr t \<longrightarrow>
      extract_from_page_spec block_keys piece p = m) \<and>
   (\<forall>i v. i < length text_fields \<and> dict_get p (text_fields ! i) = PStr v \<and>
      (\<forall>j<i. \<forall>s. dict_get p (text_fields ! j) \<noteq> PStr s) \<longrightarrow>
      extract_from_page_spec block_keys piece p = v) \<and>
   ((\<forall>k\<in>set text_fields. \<forall>s. dict_get p k \<noteq> PStr s) \<longrightarrow>
      extract_from_page_spec block_keys piece p =
        (case first_blocks p block_keys of Some bs \<Rightarrow> concat (map piece bs) | None \<Rightarrow> []))"
proof (intro conjI allI impI)
  assume "dict_get p (S ''markdown'') = PStr m \<and> dict_get p (S ''text'') = PStr t"
  then show "extract_from_page_spec block_keys piece p = m"
    by (simp add: extract_from_page_spec_def text_fields_def)
next
  fix i v
  assume a: "i < length text_fields \<and> dict_get p (text_fields ! i) = PStr v \<and>
      (\<forall>j<i. \<forall>s. dict_get p (text_fields ! j) \<noteq> PStr s)"
  then have "first_text p text_fields = Some v"
    by (intro first_text_first [of i]) blast+
  then show "extract_from_page_spec block_keys piece p = v"
    by (simp add: extract_from_page_spec_def)
next
  assume "\<forall>k\<in>set text_fields. \<forall>s. dict_get p k \<noteq> PStr s"
  then have "first_text p text_fields = None"
    by (simp add: first_text_None)
  then show "extract_from_page_spec block_keys piece p =
        (case first_blocks p block_keys of Some bs \<Rightarrow> concat (map piece bs) | None \<Rightarrow> [])"
    by (simp add: extract_from_page_spec_def)
qed

theorem markdown_before_text_witness:
  "extract_from_page_spec [S ''blocks''] str_piece
     [(S ''text'', PStr (S ''plain'')), (S ''markdown'', PStr (S ''# md''))] = S ''# md''"
proof -
  let ?p = "[(S ''text'', PStr (S ''plain'')), (S ''markdown'', PStr (S ''# md''))]"
  have "dict_get ?p (S ''markdown'') = PStr (S ''# md'') \<and> dict_get ?p (S ''text'') = PStr (S ''plain'')"
    by (simp add: dict_get_def)
  with markdown_before_text [of ?p "S ''# md''" "S ''plain''" "[S ''blocks'']" str_piece, THEN conjunct1]
  show ?thesis by blast
qed

section \<open>The Markdown assembler\<close>

text \<open>
  Claim C7, as amended.  Let the marker be non-empty and hold no line feed, and let it
  occur in no page text and in no image reference.  Then for \<open>N\<close> page texts the
  Markdown string of the assembler of the specification holds exactly \<open>N - 1\<close>
  occurrences of the marker when page breaks are enabled and none when they are not;
  a page with empty text adds no text but still its marker.
\<close>

theorem page_break_count:
  assumes "marker \<noteq> []"
    and "10 \<notin> set marker"
    and "\<forall>t\<in>set pt. occurrences marker t = 0"
    and "\<forall>a. occurrences marker (image_ref a) = 0"
  shows "occurrences marker
           (build_markdown_spec marker image_ref pt images crops insert_page_breaks)
         = (if insert_page_breaks then length pt - 1 else 0)"
proof -
  let ?ps = "md_pieces images crops insert_page_breaks 1 pt"
  have "occurrences marker (join [10, 10] (map (render_piece marker image_ref) ?ps))
          = sum_list (map (occurrences marker) (map (render_piece marker image_ref) ?ps))"
    by (rule occurrences_join [OF assms(2,1)])
  also have "\<dots> = count_breaks ?ps"
  proof (rule occurrences_pieces [OF assms(1)])
    show "\<And>t. TextPiece t \<in> set ?ps \<Longrightarrow> occurrences marker t = 0"
      using assms(3) md_pieces_text by blast
    show "\<And>a. occurrences marker (image_ref a) = 0"
      using assms(4) by blast
  qed
  finally show ?thesis
    by (simp add: build_markdown_spec_def md_pieces_breaks)
qed

theorem page_break_count_witness:
  "occurrences (S ''<page-break>'')
     (build_markdown_spec (S ''<page-break>'') (\<lambda>a::unit. []) report_pages (\<lambda>_. []) (\<lambda>_. []) True) = 2 \<and>
   occurrences (S ''<page-break>'')
     (build_markdown_spec (S ''<page-break>'') (\<lambda>a::unit. []) report_pages (\<lambda>_. []) (\<lambda>_. []) False) = 0"
proof -
  have 1: "S ''<page-break>'' \<noteq> []" by simp
  have 2: "10 \<notin> set (S ''<page-break>'')" by simp
  have 3: "\<forall>t\<in>set report_pages. occurrences (S ''<page-break>'') t = 0"
    by (simp add: report_pages_def)
  have 4: "\<forall>a::unit. occurrences (S ''<page-break>'') ((\<lambda>a. []) a) = 0" by simp
  have l: "length report_pages = 3"
    by (simp add: report_pages_def)
  note t = page_break_count [where marker = "S ''<page-break>''" and pt = report_pages
      and image_ref = "\<lambda>a::unit. []" and images = "\<lambda>_. []" and crops = "\<lambda>_. []", OF 1 2 3 4]
  from t [of True] t [of False] l show ?thesis by simp
qed

text \<open>
  Claim C7 as stated counts the markers of the string for every sequence of page texts.
  The assembler emits a page text verbatim, so a page text that holds the text of the
  marker adds an occurrence: for two pages there is one occurrence with page breaks
  disabled and there are two with page breaks enabled.
\<close>

theorem marker_in_page_text_counterexample:
  "build_markdown example_lib tagged_pages False = Inr (S ''see <page-break> tag'' @ [10, 10] @ S ''b'')
   \<and> occurrences (S ''<page-break>'') (S ''see <page-break> tag'' @ [10, 10] @ S ''b'') = 1
   \<and> build_markdown example_lib tagged_pages True
       = Inr (S ''see <page-break> tag'' @ [10, 10] @ S ''<page-break>'' @ [10, 10] @ S ''b'')
   \<and> occurrences (S ''<page-break>'')
        (S ''see <page-break> tag'' @ [10, 10] @ S ''<page-break>'' @ [10, 10] @ S ''b'') = 2
   \<and> length tagged_pages = 2"
  by (simp add: example_lib_simps build_markdown_spec_def tagged_pages_def)

end
